theory Spec2Isabelle
  imports Complex_Main "HOL-Library.AList"
begin

section \<open>SENTINEL Cortex: ledger, simulation engine and analytics\<close>

text \<open>
  The development embeds three source files: \<^verbatim>\<open>cortex/gym/exchange_mock.py\<close> (the ledger
  \<^verbatim>\<open>ExchangeMock\<close>), \<^verbatim>\<open>cortex/gym/environment.py\<close> (the engine \<^verbatim>\<open>TradingEnvironment\<close>) and
  \<^verbatim>\<open>cortex/metrics.py\<close> (\<^verbatim>\<open>MetricsEngine\<close>).

  Numbers. Python's \<^verbatim>\<open>float\<close> is modelled by \<^typ>\<open>real\<close>: every arithmetic operation is exact,
  so the statements below are the identities that the double-precision program satisfies
  up to rounding. The values \<^verbatim>\<open>inf\<close> and \<^verbatim>\<open>nan\<close> are not reals. A division whose divisor
  is zero is therefore always an explicit branch of the model: \<open>ZeroDivisionError\<close> where
  the operands are Python floats, \<open>NonFiniteValue\<close> where numpy would produce \<^verbatim>\<open>inf\<close>, and
  an explicit infinite value in the one place where the source itself writes
  \<^verbatim>\<open>float("inf")\<close>.

  State. Each method takes the object and returns the object after the call together with
  its outcome, \<open>Inl e\<close> for a raised exception and \<open>Inr v\<close> for a returned value. The object
  is returned in both cases, because a Python object keeps every mutation made before an
  exception was raised.
\<close>

datatype py_error = RuntimeError | IndexError | ZeroDivisionError | NonFiniteValue

type_synonym datetime = nat

subsection \<open>exchange\_mock.py: Fill, Position\<close>

record Fill =
  timestamp :: datetime
  symbol :: string
  side :: string
  quantity :: real
  price :: real
  fee :: real
  total_cost :: real

record Position =
  symbol :: string
  quantity :: real
  avg_entry_price :: real
  total_invested :: real

definition is_open :: "Position \<Rightarrow> bool" where
  "is_open pos = (Position.quantity pos > 1 / 10 ^ 10)"

definition value_at :: "Position \<Rightarrow> real \<Rightarrow> real" where
  "value_at pos current_price = Position.quantity pos * current_price"

definition unrealized_pnl :: "Position \<Rightarrow> real \<Rightarrow> real" where
  "unrealized_pnl pos current_price =
     (if \<not> is_open pos then 0
      else (current_price - avg_entry_price pos) * Position.quantity pos)"

subsection \<open>exchange\_mock.py: ExchangeMock\<close>

text \<open>
  \<open>positions\<close> is a Python dict: an association list in insertion order, read with
  \<^const>\<open>map_of\<close> and written with \<^const>\<open>AList.update\<close>, which replaces the value of a
  present key in place and appends an absent key at the end, as a dict does.
\<close>

record ExchangeMock =
  initial_capital :: real
  fee_rate :: real
  slippage :: real
  cash :: real
  positions :: "(string \<times> Position) list"
  trade_history :: "Fill list"
  realized_pnl :: real

definition ExchangeMock_init :: "real \<Rightarrow> real \<Rightarrow> real \<Rightarrow> ExchangeMock" where
  "ExchangeMock_init initial_capital' fee_rate' slippage' =
     \<lparr>initial_capital = initial_capital', fee_rate = fee_rate', slippage = slippage',
      cash = initial_capital', positions = [], trade_history = [], realized_pnl = 0\<rparr>"

definition exchange_reset :: "ExchangeMock \<Rightarrow> ExchangeMock" where
  "exchange_reset self =
     self\<lparr>cash := initial_capital self, positions := [], trade_history := [],
          realized_pnl := 0\<rparr>"

text \<open>
  \<^verbatim>\<open>timestamp or datetime.now()\<close>: the clock reading is the extra argument \<open>now\<close>.
\<close>

definition timestamp_or_now :: "datetime option \<Rightarrow> datetime \<Rightarrow> datetime" where
  "timestamp_or_now ts now = (case ts of None \<Rightarrow> now | Some t \<Rightarrow> t)"

text \<open>
  \<^verbatim>\<open>ExchangeMock.buy\<close>. The only division that can fail, \<^verbatim>\<open>effective_usd / execution_price\<close>,
  comes before the first mutation, so the object is unchanged when it raises. (Called by
  the engine, the price is a numpy float and a zero divisor gives \<^verbatim>\<open>inf\<close> instead of an
  exception; that value is outside this model, which raises in both cases.)
\<close>

definition buy ::
  "ExchangeMock \<Rightarrow> string \<Rightarrow> real \<Rightarrow> real \<Rightarrow> datetime option \<Rightarrow> datetime
   \<Rightarrow> ExchangeMock \<times> (py_error + Fill option)" where
  "buy self symb usd_amount market_price ts now =
     (if usd_amount \<le> 0 then (self, Inr None)
      else
        let usd_amount = min usd_amount (cash self) in
        if usd_amount < 0.01 then (self, Inr None)
        else
          let execution_price = market_price * (1 + slippage self);
              fee' = usd_amount * fee_rate self;
              effective_usd = usd_amount - fee'
          in
          if execution_price = 0 then (self, Inl ZeroDivisionError)
          else
            let quantity' = effective_usd / execution_price;
                cash' = cash self - usd_amount;
                pos = (case map_of (positions self) symb of
                         None \<Rightarrow> \<lparr>symbol = symb, quantity = 0, avg_entry_price = 0,
                                  total_invested = 0\<rparr>
                       | Some p \<Rightarrow> p);
                total_qty = Position.quantity pos + quantity';
                pos1 = (if total_qty > 0
                        then pos\<lparr>avg_entry_price :=
                               (avg_entry_price pos * Position.quantity pos
                                + execution_price * quantity') / total_qty\<rparr>
                        else pos);
                pos2 = pos1\<lparr>Position.quantity := total_qty,
                            total_invested := total_invested pos1 + effective_usd\<rparr>;
                fill = \<lparr>Fill.timestamp = timestamp_or_now ts now, Fill.symbol = symb,
                        side = ''BUY'', Fill.quantity = quantity', price = execution_price,
                        fee = fee', total_cost = usd_amount\<rparr>
            in (self\<lparr>cash := cash', positions := AList.update symb pos2 (positions self),
                     trade_history := trade_history self @ [fill]\<rparr>,
                Inr (Some fill)))"

text \<open>
  \<^verbatim>\<open>ExchangeMock.sell\<close>; \<open>qty = None\<close> is "sell everything". No division occurs.
\<close>

definition sell ::
  "ExchangeMock \<Rightarrow> string \<Rightarrow> real option \<Rightarrow> real \<Rightarrow> datetime option \<Rightarrow> datetime
   \<Rightarrow> ExchangeMock \<times> (py_error + Fill option)" where
  "sell self symb qty market_price ts now =
     (case map_of (positions self) symb of
        None \<Rightarrow> (self, Inr None)
      | Some pos \<Rightarrow>
          if \<not> is_open pos then (self, Inr None)
          else
            let quantity0 = (case qty of None \<Rightarrow> Position.quantity pos | Some q \<Rightarrow> q);
                quantity' = min quantity0 (Position.quantity pos)
            in
            if quantity' < 1 / 10 ^ 10 then (self, Inr None)
            else
              let execution_price = market_price * (1 - slippage self);
                  gross_value = quantity' * execution_price;
                  fee' = gross_value * fee_rate self;
                  net_value = gross_value - fee';
                  cost_basis = avg_entry_price pos * quantity';
                  trade_pnl = net_value - cost_basis;
                  pos1 = pos\<lparr>Position.quantity := Position.quantity pos - quantity'\<rparr>;
                  pos2 = (if Position.quantity pos1 < 1 / 10 ^ 10
                          then pos1\<lparr>Position.quantity := 0, avg_entry_price := 0,
                                    total_invested := 0\<rparr>
                          else pos1);
                  fill = \<lparr>Fill.timestamp = timestamp_or_now ts now, Fill.symbol = symb,
                          side = ''SELL'', Fill.quantity = quantity', price = execution_price,
                          fee = fee', total_cost = net_value\<rparr>
              in (self\<lparr>realized_pnl := realized_pnl self + trade_pnl,
                       cash := cash self + net_value,
                       positions := AList.update symb pos2 (positions self),
                       trade_history := trade_history self @ [fill]\<rparr>,
                  Inr (Some fill)))"

text \<open>
  \<^verbatim>\<open>get_portfolio_value\<close>: the loop over \<^verbatim>\<open>self.positions.items()\<close>, with the running
  \<open>total\<close> as accumulator; \<open>current_prices\<close> is a dict read only by key.
\<close>

fun portfolio_loop ::
  "(string \<times> Position) list \<Rightarrow> (string \<rightharpoonup> real) \<Rightarrow> real \<Rightarrow> real" where
  "portfolio_loop [] current_prices total' = total'"
| "portfolio_loop ((symb, pos) # rest) current_prices total' =
     portfolio_loop rest current_prices
       (case current_prices symb of
          None \<Rightarrow> total'
        | Some p \<Rightarrow> if is_open pos then total' + value_at pos p else total')"

definition get_portfolio_value :: "ExchangeMock \<Rightarrow> (string \<rightharpoonup> real) \<Rightarrow> real" where
  "get_portfolio_value self current_prices =
     portfolio_loop (positions self) current_prices (cash self)"

subsection \<open>environment.py: the data frame\<close>

text \<open>
  A row of the pandas \<^verbatim>\<open>DataFrame\<close>, one field per column (prefix \<open>col_\<close>). The column
  \<^verbatim>\<open>sentiment_score\<close> may be absent, which \<^verbatim>\<open>row.get("sentiment_score", 0.0)\<close> reads as 0.
\<close>

record row =
  col_timestamp :: datetime
  col_open :: real
  col_high :: real
  col_low :: real
  col_close :: real
  col_volume :: real
  col_sentiment_score :: "real option"

text \<open>
  \<^verbatim>\<open>data.iloc[i]\<close>: a negative position counts from the end, a position outside the frame
  raises \<^verbatim>\<open>IndexError\<close>.
\<close>

definition iloc :: "'a list \<Rightarrow> int \<Rightarrow> py_error + 'a" where
  "iloc xs i =
     (let j = (if i < 0 then int (length xs) + i else i)
      in if j < 0 \<or> int (length xs) \<le> j then Inl IndexError else Inr (xs ! nat j))"

text \<open>\<^verbatim>\<open>data.iloc[start:stop]\<close>: both ends are clipped to the frame, nothing is raised.\<close>

definition slice_bound :: "nat \<Rightarrow> int \<Rightarrow> nat" where
  "slice_bound n i = (if i < 0 then nat (max 0 (int n + i)) else min (nat i) n)"

definition iloc_slice :: "'a list \<Rightarrow> int \<Rightarrow> int \<Rightarrow> 'a list" where
  "iloc_slice xs start stop =
     drop (slice_bound (length xs) start) (take (slice_bound (length xs) stop) xs)"

text \<open>
  \<^verbatim>\<open>data["close"].pct_change().fillna(0)\<close>: the first entry is \<^verbatim>\<open>nan\<close>, filled with 0; after
  a previous close of 0 the entry is \<^verbatim>\<open>nan\<close> (filled with 0) when the close is 0 too and
  infinite otherwise, which is \<open>None\<close> here.
\<close>

fun pct_change_from :: "real \<Rightarrow> real list \<Rightarrow> real option list" where
  "pct_change_from prev [] = []"
| "pct_change_from prev (c # cs) =
     (if prev = 0 then (if c = 0 then Some 0 else None) else Some (c / prev - 1))
     # pct_change_from c cs"

definition pct_change_fillna :: "real list \<Rightarrow> real option list" where
  "pct_change_fillna closes =
     (case closes of [] \<Rightarrow> [] | c # cs \<Rightarrow> Some 0 # pct_change_from c cs)"

subsection \<open>environment.py: TradingEnvironment\<close>

definition HOLD :: int where "HOLD = 0"
definition BUY :: int where "BUY = 1"
definition SELL :: int where "SELL = 2"

definition ACTION_NAMES :: "int \<rightharpoonup> string" where
  "ACTION_NAMES = [HOLD \<mapsto> ''HOLD'', BUY \<mapsto> ''BUY'', SELL \<mapsto> ''SELL'']"

text \<open>The dicts built by \<^verbatim>\<open>step\<close> and \<^verbatim>\<open>_get_observation\<close>, one field per key.\<close>

record log_entry =
  log_timestamp :: datetime
  log_action :: string
  log_price :: real
  log_portfolio_value :: real
  log_cash :: real
  log_position_qty :: real
  log_reward :: real
  log_score :: real
  log_hold_penalty :: real
  log_sentiment :: real

record info =
  info_fill :: "Fill option"
  info_portfolio_value :: real
  info_score :: real
  info_hold_penalty :: real
  info_total_hold_penalty :: real
  info_step :: int
  info_total_steps :: int

record observation =
  obs_prices :: "(real \<times> real \<times> real \<times> real \<times> real) list"
  obs_returns :: "real option list"
  obs_current_price :: real
  obs_position :: real
  obs_portfolio_value :: real
  obs_cash :: real
  obs_sentiment :: real
  obs_score :: real
  obs_timestamp :: datetime
  obs_step :: int

text \<open>
  The engine. \<open>returns\<close> is the column \<^verbatim>\<open>self.data["returns"]\<close> that the constructor adds
  to the frame; \<open>done_flag\<close> is the attribute \<^verbatim>\<open>self.done\<close>.
\<close>

record TradingEnvironment =
  data :: "row list"
  returns :: "real option list"
  initial_capital :: real
  risk_per_trade_pct :: real
  window_size :: int
  symbol :: string
  hold_penalty_rate :: real
  exchange :: ExchangeMock
  current_step :: int
  done_flag :: bool
  equity_curve :: "real list"
  trade_pnls :: "real list"
  step_log :: "log_entry list"
  score :: real
  score_history :: "real list"
  total_hold_penalty :: real

type_synonym step_result = "observation option \<times> real \<times> bool \<times> bool \<times> info"

definition TradingEnvironment_init ::
  "row list \<Rightarrow> real \<Rightarrow> real \<Rightarrow> real \<Rightarrow> real \<Rightarrow> int \<Rightarrow> string \<Rightarrow> real
   \<Rightarrow> TradingEnvironment" where
  "TradingEnvironment_init data' initial_capital' fee_rate' slippage' risk_per_trade_pct'
       window_size' symbol' hold_penalty_rate' =
     \<lparr>data = data', returns = pct_change_fillna (map col_close data'),
      initial_capital = initial_capital', risk_per_trade_pct = risk_per_trade_pct',
      window_size = window_size', symbol = symbol', hold_penalty_rate = hold_penalty_rate',
      exchange = ExchangeMock_init initial_capital' fee_rate' slippage',
      current_step = 0, done_flag = False, equity_curve = [], trade_pnls = [],
      step_log = [], score = 1000, score_history = [], total_hold_penalty = 0\<rparr>"

definition total_steps :: "TradingEnvironment \<Rightarrow> int" where
  "total_steps self = int (length (data self))"

definition position_qty :: "TradingEnvironment \<Rightarrow> real" where
  "position_qty self =
     (case map_of (positions (exchange self)) (TradingEnvironment.symbol self) of
        None \<Rightarrow> 0
      | Some pos \<Rightarrow> Position.quantity pos)"

definition sentiment_of :: "row \<Rightarrow> real" where
  "sentiment_of r = (case col_sentiment_score r of None \<Rightarrow> 0 | Some v \<Rightarrow> v)"

definition get_observation :: "TradingEnvironment \<Rightarrow> py_error + observation" where
  "get_observation self =
     (let idx = current_step self;
          start = max 0 (idx - window_size self);
          window = iloc_slice (data self) start idx
      in case iloc (data self) idx of
           Inl e \<Rightarrow> Inl e
         | Inr r \<Rightarrow>
             Inr \<lparr>obs_prices =
                    map (\<lambda>w. (col_open w, col_high w, col_low w, col_close w, col_volume w))
                      window,
                  obs_returns = iloc_slice (returns self) start idx,
                  obs_current_price = col_close r,
                  obs_position = position_qty self,
                  obs_portfolio_value =
                    get_portfolio_value (exchange self)
                      [TradingEnvironment.symbol self \<mapsto> col_close r],
                  obs_cash = cash (exchange self),
                  obs_sentiment = sentiment_of r,
                  obs_score = score self,
                  obs_timestamp = col_timestamp r,
                  obs_step = idx\<rparr>)"

text \<open>\<^verbatim>\<open>reset\<close> mutates first and builds the observation last, which may raise.\<close>

definition reset :: "TradingEnvironment \<Rightarrow> TradingEnvironment \<times> (py_error + observation)" where
  "reset self =
     (let self' = self\<lparr>current_step := window_size self, done_flag := False,
                       exchange := exchange_reset (exchange self), equity_curve := [],
                       trade_pnls := [], step_log := [], score := 1000,
                       score_history := [], total_hold_penalty := 0\<rparr>
      in (self', get_observation self'))"

text \<open>
  \<^verbatim>\<open>step\<close>, lines 116 to 144: the \<^verbatim>\<open>if action == HOLD / elif BUY / elif SELL\<close> chain. It
  returns the fill and the applied \<open>hold_penalty\<close>. The engine always passes the row's
  timestamp to the ledger, so the ledger's clock argument is never read; the timestamp
  is passed for it.
\<close>

definition apply_action ::
  "TradingEnvironment \<Rightarrow> int \<Rightarrow> real \<Rightarrow> datetime \<Rightarrow> real
   \<Rightarrow> TradingEnvironment \<times> (py_error + Fill option \<times> real)" where
  "apply_action self action price' ts prev_value =
     (if action = HOLD then
        let penalty = cash (exchange self) * hold_penalty_rate self in
        if penalty > 0.01
        then (self\<lparr>exchange := (exchange self)\<lparr>cash := cash (exchange self) - penalty\<rparr>,
                   total_hold_penalty := total_hold_penalty self + penalty\<rparr>,
              Inr (None, penalty))
        else (self, Inr (None, 0))
      else if action = BUY then
        let trade_amount = prev_value * risk_per_trade_pct self in
        case buy (exchange self) (TradingEnvironment.symbol self) trade_amount price'
               (Some ts) ts of
          (ex, Inl e) \<Rightarrow> (self\<lparr>exchange := ex\<rparr>, Inl e)
        | (ex, Inr fill) \<Rightarrow> (self\<lparr>exchange := ex\<rparr>, Inr (fill, 0))
      else if action = SELL then
        case sell (exchange self) (TradingEnvironment.symbol self) None price'
               (Some ts) ts of
          (ex, Inl e) \<Rightarrow> (self\<lparr>exchange := ex\<rparr>, Inl e)
        | (ex, Inr None) \<Rightarrow> (self\<lparr>exchange := ex\<rparr>, Inr (None, 0))
        | (ex, Inr (Some fill)) \<Rightarrow>
            (self\<lparr>exchange := ex,
                  trade_pnls := trade_pnls self
                    @ [total_cost fill - Fill.quantity fill * price fill]\<rparr>,
             Inr (Some fill, 0))
      else (self, Inr (None, 0)))"

text \<open>
  \<^verbatim>\<open>step\<close>, lines 150 to 160: the reward, the score after the reward term, and the clamp
  \<^verbatim>\<open>max(0.0, min(1000.0, self.score))\<close>.
\<close>

definition reward_of :: "real \<Rightarrow> real \<Rightarrow> real" where
  "reward_of prev_value current_value =
     (if prev_value > 0 then (current_value - prev_value) / prev_value else 0)"

definition score_after_reward :: "real \<Rightarrow> real \<Rightarrow> real" where
  "score_after_reward score' reward =
     (if reward > 0 then score' + reward * 100
      else if reward < 0 then score' + reward * 150
      else score')"

definition clamp_score :: "real \<Rightarrow> real" where
  "clamp_score score' = max 0 (min 1000 score')"

text \<open>
  \<^verbatim>\<open>step\<close>, lines 146 to 199. \<^verbatim>\<open>hold_penalty / self.initial_capital\<close> raises when the
  capital is 0; by then the trajectory has its new value and the score its reward term.
\<close>

definition finish_step ::
  "TradingEnvironment \<Rightarrow> int \<Rightarrow> row \<Rightarrow> real \<Rightarrow> Fill option \<Rightarrow> real
   \<Rightarrow> TradingEnvironment \<times> (py_error + step_result)" where
  "finish_step self action r prev_value fill hold_penalty =
     (let current_value =
            get_portfolio_value (exchange self)
              [TradingEnvironment.symbol self \<mapsto> col_close r];
          self1 = self\<lparr>equity_curve := equity_curve self @ [current_value]\<rparr>;
          reward = reward_of prev_value current_value;
          score1 = score_after_reward (score self1) reward
      in
      if hold_penalty > 0 \<and> TradingEnvironment.initial_capital self1 = 0
      then (self1\<lparr>score := score1\<rparr>, Inl ZeroDivisionError)
      else
        let score2 = (if hold_penalty > 0
                      then score1
                           - (hold_penalty / TradingEnvironment.initial_capital self1) * 50
                      else score1);
            score3 = clamp_score score2;
            entry = \<lparr>log_timestamp = col_timestamp r,
                     log_action = (case ACTION_NAMES action of
                                     None \<Rightarrow> ''UNKNOWN'' | Some name \<Rightarrow> name),
                     log_price = col_close r,
                     log_portfolio_value = current_value,
                     log_cash = cash (exchange self1),
                     log_position_qty = position_qty self1,
                     log_reward = reward,
                     log_score = score3,
                     log_hold_penalty = hold_penalty,
                     log_sentiment = sentiment_of r\<rparr>;
            next_step = current_step self1 + 1;
            terminated = (next_step \<ge> int (length (data self1)) - 1);
            self2 = self1\<lparr>score := score3,
                         score_history := score_history self1 @ [score3],
                         step_log := step_log self1 @ [entry],
                         current_step := next_step,
                         done_flag := terminated\<rparr>;
            info' = \<lparr>info_fill = fill,
                     info_portfolio_value = current_value,
                     info_score = score3,
                     info_hold_penalty = hold_penalty,
                     info_total_hold_penalty = total_hold_penalty self2,
                     info_step = next_step,
                     info_total_steps = total_steps self2\<rparr>
        in
        if terminated then (self2, Inr (None, reward, terminated, False, info'))
        else
          case get_observation self2 of
            Inl e \<Rightarrow> (self2, Inl e)
          | Inr obs \<Rightarrow> (self2, Inr (Some obs, reward, terminated, False, info')))"

text \<open>\<^verbatim>\<open>step\<close>: the guard on \<^verbatim>\<open>self.done\<close>, the row at the cursor, then the two parts above.\<close>

definition step :: "TradingEnvironment \<Rightarrow> int \<Rightarrow> TradingEnvironment \<times> (py_error + step_result)" where
  "step self action =
     (if done_flag self then (self, Inl RuntimeError)
      else
        case iloc (data self) (current_step self) of
          Inl e \<Rightarrow> (self, Inl e)
        | Inr r \<Rightarrow>
            let prev_value =
                  get_portfolio_value (exchange self)
                    [TradingEnvironment.symbol self \<mapsto> col_close r]
            in (case apply_action self action (col_close r) (col_timestamp r) prev_value of
                  (self1, Inl e) \<Rightarrow> (self1, Inl e)
                | (self1, Inr (fill, hold_penalty)) \<Rightarrow>
                    finish_step self1 action r prev_value fill hold_penalty))"

text \<open>
  A caller's loop: one \<^verbatim>\<open>step\<close> per action, on the same object. An exception is caught
  and the loop goes on, so every way of driving the engine is a prefix of such a run.
\<close>

fun run_steps :: "TradingEnvironment \<Rightarrow> int list \<Rightarrow> TradingEnvironment" where
  "run_steps self [] = self"
| "run_steps self (action # actions) = run_steps (fst (step self action)) actions"

text \<open>The same for the ledger alone: a sequence of buy and sell orders.\<close>

datatype order =
  Buy string real real "datetime option"
| Sell string "real option" real "datetime option"

fun order_price :: "order \<Rightarrow> real" where
  "order_price (Buy symb usd_amount market_price ts) = market_price"
| "order_price (Sell symb qty market_price ts) = market_price"

fun place :: "ExchangeMock \<Rightarrow> order \<Rightarrow> datetime \<Rightarrow> ExchangeMock" where
  "place self (Buy symb usd_amount market_price ts) now =
     fst (buy self symb usd_amount market_price ts now)"
| "place self (Sell symb qty market_price ts) now =
     fst (sell self symb qty market_price ts now)"

fun place_all :: "ExchangeMock \<Rightarrow> order list \<Rightarrow> datetime \<Rightarrow> ExchangeMock" where
  "place_all self [] now = self"
| "place_all self (ord # ords) now = place_all (place self ord now) ords now"

subsection \<open>metrics.py: MetricsEngine\<close>

text \<open>
  \<^verbatim>\<open>max_drawdown\<close>. The loop runs over \<^verbatim>\<open>enumerate(values)\<close>, so \<open>i\<close> is carried along. The
  values are a numpy array: \<^verbatim>\<open>(peak - val) / peak\<close> at \<open>peak = 0\<close> is infinite, raises
  nothing, and stays the maximum to the end of the loop; the model returns
  \<open>NonFiniteValue\<close> for that result.
\<close>

fun max_drawdown_loop ::
  "real list \<Rightarrow> int \<Rightarrow> real \<Rightarrow> real \<Rightarrow> int \<Rightarrow> int \<Rightarrow> int \<Rightarrow> py_error + real \<times> int" where
  "max_drawdown_loop [] i peak max_dd dd_start max_dd_duration current_dd_start =
     Inr (max_dd * 100, max_dd_duration)"
| "max_drawdown_loop (val # rest) i peak max_dd dd_start max_dd_duration current_dd_start =
     (if val \<ge> peak
      then max_drawdown_loop rest (i + 1) val max_dd dd_start max_dd_duration i
      else if peak = 0 then Inl NonFiniteValue
      else
        let dd = (peak - val) / peak in
        if dd > max_dd
        then max_drawdown_loop rest (i + 1) peak dd current_dd_start (i - current_dd_start)
               current_dd_start
        else max_drawdown_loop rest (i + 1) peak max_dd dd_start max_dd_duration
               current_dd_start)"

definition max_drawdown :: "real list \<Rightarrow> py_error + real \<times> int" where
  "max_drawdown equity_curve' =
     (case equity_curve' of
        [] \<Rightarrow> Inr (0, 0)
      | [v] \<Rightarrow> Inr (0, 0)
      | v # _ \<Rightarrow> max_drawdown_loop equity_curve' 0 v 0 0 0 0)"

text \<open>
  \<^verbatim>\<open>analyze_trades\<close>. \<open>profit_factor\<close> is the one value that the source sets to
  \<^verbatim>\<open>float("inf")\<close>.
\<close>

datatype ext_float = Finite real | Infinity

record trade_stats =
  total_trades :: nat
  winning_trades :: nat
  losing_trades :: nat
  win_rate :: real
  profit_factor :: ext_float
  avg_win :: real
  avg_loss :: real

definition analyze_trades :: "real list \<Rightarrow> trade_stats" where
  "analyze_trades pnls =
     (if pnls = [] then
        \<lparr>total_trades = 0, winning_trades = 0, losing_trades = 0, win_rate = 0,
         profit_factor = Finite 0, avg_win = 0, avg_loss = 0\<rparr>
      else
        let wins = filter (\<lambda>p. p > 0) pnls;
            losses = filter (\<lambda>p. p \<le> 0) pnls;
            gross_profit = (if wins \<noteq> [] then sum_list wins else 0);
            gross_loss = (if losses \<noteq> [] then \<bar>sum_list losses\<bar> else 0)
        in \<lparr>total_trades = length pnls,
            winning_trades = length wins,
            losing_trades = length losses,
            win_rate = (if pnls \<noteq> [] then real (length wins) / real (length pnls) * 100
                        else 0),
            profit_factor = (if gross_loss > 0 then Finite (gross_profit / gross_loss)
                             else Infinity),
            avg_win = (if wins \<noteq> [] then sum_list wins / real (length wins) else 0),
            avg_loss = (if losses \<noteq> [] then sum_list losses / real (length losses)
                        else 0)\<rparr>)"

subsection \<open>Example data\<close>

text \<open>
  A four-row frame with closes 100, 100, 110, 110 and an engine on it with the default fee
  and slippage, a lookback window of one row and half of the portfolio committed per BUY.
  After \<^verbatim>\<open>reset\<close> the cursor is on row 1, a BUY there invests 50 at 100, a SELL on row 2
  liquidates at 110 and ends the run.
\<close>

definition flat_row :: "datetime \<Rightarrow> real \<Rightarrow> row" where
  "flat_row t c =
     \<lparr>col_timestamp = t, col_open = c, col_high = c, col_low = c, col_close = c,
      col_volume = 1, col_sentiment_score = None\<rparr>"

definition example_data :: "row list" where
  "example_data = [flat_row 0 100, flat_row 1 100, flat_row 2 110, flat_row 3 110]"

definition example_env :: TradingEnvironment where
  "example_env =
     TradingEnvironment_init example_data 100 0.001 0.0005 0.5 1 ''BTCUSDT'' 0.05"

subsection \<open>Scenario A: a buy and sell round trip on the ledger\<close>

definition scenario_A_ledger :: ExchangeMock where
  "scenario_A_ledger = ExchangeMock_init 100 0.001 0.0005"

definition scenario_A_buy :: "ExchangeMock \<times> (py_error + Fill option)" where
  "scenario_A_buy = buy scenario_A_ledger ''BTCUSDT'' 50 100 None 0"

definition scenario_A_sell :: "ExchangeMock \<times> (py_error + Fill option)" where
  "scenario_A_sell = sell (fst scenario_A_buy) ''BTCUSDT'' None 110 None 1"

definition example_started :: TradingEnvironment where
  "example_started = fst (reset example_env)"

definition example_bought :: TradingEnvironment where
  "example_bought = fst (step example_started BUY)"

definition example_sold :: TradingEnvironment where
  "example_sold = fst (step example_bought SELL)"

subsection \<open>Auxiliary notions for the ledger invariant\<close>

text \<open>
  A position is in order when its quantity is not negative and, if the quantity is 0, its
  average entry price and invested amount are 0 too; a ledger is in order when its dict
  has no duplicate key and every position is in order. \<open>sold_quantity\<close> is the quantity
  that \<^verbatim>\<open>sell\<close> executes after clamping the request to the open quantity.
\<close>

definition position_ok :: "Position \<Rightarrow> bool" where
  "position_ok p \<longleftrightarrow>
     0 \<le> Position.quantity p
     \<and> (Position.quantity p = 0 \<longrightarrow> avg_entry_price p = 0 \<and> total_invested p = 0)"

definition positions_ok :: "ExchangeMock \<Rightarrow> bool" where
  "positions_ok self \<longleftrightarrow>
     distinct (map fst (positions self))
     \<and> (\<forall>(symb, p) \<in> set (positions self). position_ok p)"

definition sold_quantity :: "Position \<Rightarrow> real option \<Rightarrow> real" where
  "sold_quantity pos qty =
     min (case qty of None \<Rightarrow> Position.quantity pos | Some q \<Rightarrow> q) (Position.quantity pos)"

section \<open>Properties\<close>

subsection \<open>What each operation leaves unchanged\<close>

lemma buy_params [simp]:
  "fee_rate (fst (buy self symb usd mp ts now)) = fee_rate self"
  "slippage (fst (buy self symb usd mp ts now)) = slippage self"
  "ExchangeMock.initial_capital (fst (buy self symb usd mp ts now)) = ExchangeMock.initial_capital self"
  by (simp_all add: buy_def Let_def)

lemma sell_params [simp]:
  "fee_rate (fst (sell self symb qty mp ts now)) = fee_rate self"
  "slippage (fst (sell self symb qty mp ts now)) = slippage self"
  "ExchangeMock.initial_capital (fst (sell self symb qty mp ts now)) = ExchangeMock.initial_capital self"
  by (simp_all add: sell_def Let_def split: option.splits)

lemma buy_cash_nonneg:
  "0 \<le> cash self \<Longrightarrow> 0 \<le> cash (fst (buy self symb usd mp ts now))"
  by (simp add: buy_def Let_def)

lemma sell_cash_nonneg:
  assumes "0 \<le> cash self" "0 \<le> mp" "slippage self \<le> 1" "fee_rate self \<le> 1"
  shows "0 \<le> cash (fst (sell self symb qty mp ts now))"
proof -
  have net: "0 \<le> q * (mp * (1 - slippage self)) - q * (mp * (1 - slippage self)) * fee_rate self"
    if "0 \<le> q" for q :: real
  proof -
    have "0 \<le> q * (mp * (1 - slippage self)) * (1 - fee_rate self)"
      using assms that by simp
    then show ?thesis by (simp add: algebra_simps)
  qed
  show ?thesis
    using assms(1) net
    by (auto simp: sell_def Let_def is_open_def min_def split: option.splits intro!: add_nonneg_nonneg)
qed

lemma finish_step_exchange [simp]:
  "exchange (fst (finish_step self action r pv fill hp)) = exchange self"
  by (simp add: finish_step_def Let_def split: sum.splits)

lemma finish_step_params [simp]:
  "data (fst (finish_step self action r pv fill hp)) = data self"
  "TradingEnvironment.initial_capital (fst (finish_step self action r pv fill hp)) = TradingEnvironment.initial_capital self"
  "hold_penalty_rate (fst (finish_step self action r pv fill hp)) = hold_penalty_rate self"
  "risk_per_trade_pct (fst (finish_step self action r pv fill hp)) = risk_per_trade_pct self"
  "TradingEnvironment.symbol (fst (finish_step self action r pv fill hp)) = TradingEnvironment.symbol self"
  "window_size (fst (finish_step self action r pv fill hp)) = window_size self"
  by (simp_all add: finish_step_def Let_def split: sum.splits)

lemma apply_action_params [simp]:
  "data (fst (apply_action self action p ts pv)) = data self"
  "TradingEnvironment.initial_capital (fst (apply_action self action p ts pv)) = TradingEnvironment.initial_capital self"
  "hold_penalty_rate (fst (apply_action self action p ts pv)) = hold_penalty_rate self"
  "risk_per_trade_pct (fst (apply_action self action p ts pv)) = risk_per_trade_pct self"
  "TradingEnvironment.symbol (fst (apply_action self action p ts pv)) = TradingEnvironment.symbol self"
  "window_size (fst (apply_action self action p ts pv)) = window_size self"
  "score (fst (apply_action self action p ts pv)) = score self"
  by (simp_all add: apply_action_def Let_def split: prod.splits sum.splits option.splits)

lemma apply_action_exchange:
  "exchange (fst (apply_action self action p ts pv)) =
     (if action = HOLD then
        (if cash (exchange self) * hold_penalty_rate self > 0.01
         then (exchange self)\<lparr>cash := cash (exchange self)
                                   - cash (exchange self) * hold_penalty_rate self\<rparr>
         else exchange self)
      else if action = BUY then
        fst (buy (exchange self) (TradingEnvironment.symbol self)
               (pv * risk_per_trade_pct self) p (Some ts) ts)
      else if action = SELL then
        fst (sell (exchange self) (TradingEnvironment.symbol self) None p (Some ts) ts)
      else exchange self)"
  by (simp add: apply_action_def Let_def split: prod.splits sum.splits option.splits)

lemma apply_action_exchange_params [simp]:
  "fee_rate (exchange (fst (apply_action self action p ts pv))) = fee_rate (exchange self)"
  "slippage (exchange (fst (apply_action self action p ts pv))) = slippage (exchange self)"
  "ExchangeMock.initial_capital (exchange (fst (apply_action self action p ts pv)))
     = ExchangeMock.initial_capital (exchange self)"
  by (simp_all add: apply_action_exchange)

lemma apply_action_cash_nonneg:
  assumes "0 \<le> cash (exchange self)" "0 \<le> p" "slippage (exchange self) \<le> 1"
    "fee_rate (exchange self) \<le> 1" "hold_penalty_rate self \<le> 1"
  shows "0 \<le> cash (exchange (fst (apply_action self action p ts pv)))"
  using assms
  by (simp add: apply_action_exchange buy_cash_nonneg sell_cash_nonneg mult_left_le)

lemma step_eq:
  "step self action =
     (if done_flag self then (self, Inl RuntimeError)
      else case iloc (data self) (current_step self) of
        Inl e \<Rightarrow> (self, Inl e)
      | Inr r \<Rightarrow>
         (let pv = get_portfolio_value (exchange self) [TradingEnvironment.symbol self \<mapsto> col_close r];
              a = apply_action self action (col_close r) (col_timestamp r) pv
          in case snd a of Inl e \<Rightarrow> (fst a, Inl e)
             | Inr fh \<Rightarrow> finish_step (fst a) action r pv (fst fh) (snd fh)))"
  by (simp add: step_def Let_def split: prod.splits sum.splits)

lemma step_params [simp]:
  "data (fst (step self action)) = data self"
  "TradingEnvironment.initial_capital (fst (step self action)) = TradingEnvironment.initial_capital self"
  "hold_penalty_rate (fst (step self action)) = hold_penalty_rate self"
  "risk_per_trade_pct (fst (step self action)) = risk_per_trade_pct self"
  "TradingEnvironment.symbol (fst (step self action)) = TradingEnvironment.symbol self"
  "window_size (fst (step self action)) = window_size self"
  "fee_rate (exchange (fst (step self action))) = fee_rate (exchange self)"
  "slippage (exchange (fst (step self action))) = slippage (exchange self)"
  "ExchangeMock.initial_capital (exchange (fst (step self action)))
     = ExchangeMock.initial_capital (exchange self)"
  by (simp_all add: step_eq Let_def split: sum.splits)

lemma iloc_in_set: "iloc xs i = Inr x \<Longrightarrow> x \<in> set xs"
  by (auto simp: iloc_def Let_def split: if_splits)

lemma step_cash_nonneg:
  assumes c: "0 \<le> cash (exchange self)" and pr: "\<forall>r \<in> set (data self). 0 < col_close r"
    and sl: "slippage (exchange self) \<le> 1" and fr: "fee_rate (exchange self) \<le> 1"
    and hp: "hold_penalty_rate self \<le> 1"
  shows "0 \<le> cash (exchange (fst (step self action)))"
proof (cases "done_flag self")
  case True
  then show ?thesis using c by (simp add: step_eq)
next
  case False
  show ?thesis
  proof (cases "iloc (data self) (current_step self)")
    case (Inl e)
    then show ?thesis using False c by (simp add: step_eq)
  next
    case (Inr r)
    then have "0 \<le> col_close r" using pr iloc_in_set [OF Inr] by (simp add: order_less_imp_le)
    then have "0 \<le> cash (exchange (fst (apply_action self action (col_close r) ts pv)))" for ts pv
      using apply_action_cash_nonneg [OF c _ sl fr hp] by simp
    then show ?thesis using False Inr by (simp add: step_eq Let_def split: sum.splits)
  qed
qed

lemma reset_fields [simp]:
  "data (fst (reset self)) = data self"
  "TradingEnvironment.initial_capital (fst (reset self)) = TradingEnvironment.initial_capital self"
  "hold_penalty_rate (fst (reset self)) = hold_penalty_rate self"
  "risk_per_trade_pct (fst (reset self)) = risk_per_trade_pct self"
  "TradingEnvironment.symbol (fst (reset self)) = TradingEnvironment.symbol self"
  "window_size (fst (reset self)) = window_size self"
  "exchange (fst (reset self)) = exchange_reset (exchange self)"
  "current_step (fst (reset self)) = window_size self"
  "done_flag (fst (reset self)) = False"
  "score (fst (reset self)) = 1000"
  "equity_curve (fst (reset self)) = []"
  "trade_pnls (fst (reset self)) = []"
  "step_log (fst (reset self)) = []"
  "total_hold_penalty (fst (reset self)) = 0"
  by (simp_all add: reset_def Let_def)

lemma init_fields [simp]:
  "data (TradingEnvironment_init d ic fr sl rk w sy hp) = d"
  "TradingEnvironment.initial_capital (TradingEnvironment_init d ic fr sl rk w sy hp) = ic"
  "hold_penalty_rate (TradingEnvironment_init d ic fr sl rk w sy hp) = hp"
  "risk_per_trade_pct (TradingEnvironment_init d ic fr sl rk w sy hp) = rk"
  "TradingEnvironment.symbol (TradingEnvironment_init d ic fr sl rk w sy hp) = sy"
  "window_size (TradingEnvironment_init d ic fr sl rk w sy hp) = w"
  "exchange (TradingEnvironment_init d ic fr sl rk w sy hp) = ExchangeMock_init ic fr sl"
  "current_step (TradingEnvironment_init d ic fr sl rk w sy hp) = 0"
  "done_flag (TradingEnvironment_init d ic fr sl rk w sy hp) = False"
  "score (TradingEnvironment_init d ic fr sl rk w sy hp) = 1000"
  "equity_curve (TradingEnvironment_init d ic fr sl rk w sy hp) = []"
  "trade_pnls (TradingEnvironment_init d ic fr sl rk w sy hp) = []"
  "step_log (TradingEnvironment_init d ic fr sl rk w sy hp) = []"
  by (simp_all add: TradingEnvironment_init_def)

lemma exchange_init_fields [simp]:
  "ExchangeMock.initial_capital (ExchangeMock_init ic fr sl) = ic"
  "fee_rate (ExchangeMock_init ic fr sl) = fr"
  "slippage (ExchangeMock_init ic fr sl) = sl"
  "cash (ExchangeMock_init ic fr sl) = ic"
  "positions (ExchangeMock_init ic fr sl) = []"
  "trade_history (ExchangeMock_init ic fr sl) = []"
  "realized_pnl (ExchangeMock_init ic fr sl) = 0"
  by (simp_all add: ExchangeMock_init_def)

lemma exchange_reset_fields [simp]:
  "ExchangeMock.initial_capital (exchange_reset ex) = ExchangeMock.initial_capital ex"
  "fee_rate (exchange_reset ex) = fee_rate ex"
  "slippage (exchange_reset ex) = slippage ex"
  "cash (exchange_reset ex) = ExchangeMock.initial_capital ex"
  "positions (exchange_reset ex) = []"
  "trade_history (exchange_reset ex) = []"
  "realized_pnl (exchange_reset ex) = 0"
  by (simp_all add: exchange_reset_def)

lemma run_steps_cash_nonneg:
  assumes "0 \<le> cash (exchange self)" "\<forall>r \<in> set (data self). 0 < col_close r"
    "slippage (exchange self) \<le> 1" "fee_rate (exchange self) \<le> 1" "hold_penalty_rate self \<le> 1"
  shows "0 \<le> cash (exchange (run_steps self actions))"
  using assms
proof (induction actions arbitrary: self)
  case Nil
  then show ?case by simp
next
  case (Cons a actions)
  have "0 \<le> cash (exchange (fst (step self a)))"
    using Cons.prems by (rule step_cash_nonneg)
  then show ?case using Cons.prems by (simp add: Cons.IH)
qed

lemma ex_iloc [simp]:
  "iloc example_data 0 = Inr (flat_row 0 100)"
  "iloc example_data 1 = Inr (flat_row 1 100)"
  "iloc example_data 2 = Inr (flat_row 2 110)"
  "iloc example_data 3 = Inr (flat_row 3 110)"
  "length example_data = 4"
  by (simp_all add: iloc_def example_data_def)

lemma flat_row_simps [simp]:
  "col_close (flat_row t c) = c" "col_timestamp (flat_row t c) = t"
  "col_sentiment_score (flat_row t c) = None"
  by (simp_all add: flat_row_def)

subsection \<open>Ledger: no-fill orders and value conservation\<close>

text \<open>
  Claim C10. A buy whose \<open>usd_amount\<close> is zero or negative, or whose amount clamped to the
  available cash is below 0.01, raises nothing, returns \<^verbatim>\<open>None\<close> (no fill) and leaves the
  whole ledger, hence cash, positions, trade history and realized P\&L, as it was.
\<close>

theorem buy_no_fill_total:
  "usd_amount \<le> 0 \<or> min usd_amount (cash self) < 0.01
     \<Longrightarrow> buy self symb usd_amount market_price ts now = (self, Inr None)"
  by (auto simp: buy_def Let_def)

theorem buy_no_fill_total_witness:
  "(-5::real) \<le> 0
   \<and> buy (ExchangeMock_init 100 0.001 0.0005) ''BTCUSDT'' (-5) 0 None 0
       = (ExchangeMock_init 100 0.001 0.0005, Inr None)
   \<and> min (250::real) (cash (ExchangeMock_init 0.005 0.001 0.0005)) < 0.01
   \<and> buy (ExchangeMock_init 0.005 0.001 0.0005) ''BTCUSDT'' 250 0 None 0
       = (ExchangeMock_init 0.005 0.001 0.0005, Inr None)"
  using buy_no_fill_total [of "-5" "ExchangeMock_init 100 0.001 0.0005" "''BTCUSDT''" 0 None 0]
        buy_no_fill_total [of 250 "ExchangeMock_init 0.005 0.001 0.0005" "''BTCUSDT''" 0 None 0]
  by simp

text \<open>
  Claim C1. A BUY that produces a fill, with \<open>a\<close> the amount after clamping to the cash:
  \<open>a\<close> is at least 0.01, the cash goes down by exactly \<open>a\<close>, the fee is \<open>a * fee_rate\<close>,
  the execution price is \<open>market_price * (1 + slippage)\<close>, the quantity is
  \<open>(a - fee) / execution_price\<close>, and \<open>a = fee + quantity * execution_price\<close> (an exact
  identity over the reals; the fill's total cost is \<open>a\<close>).
\<close>

theorem buy_value_conservation:
  assumes "buy self symb usd_amount market_price ts now = (self', Inr (Some f))"
  shows "0.01 \<le> min usd_amount (cash self)
       \<and> cash self' = cash self - min usd_amount (cash self)
       \<and> fee f = min usd_amount (cash self) * fee_rate self
       \<and> price f = market_price * (1 + slippage self)
       \<and> Fill.quantity f = (min usd_amount (cash self) - fee f) / price f
       \<and> total_cost f = min usd_amount (cash self)
       \<and> min usd_amount (cash self) = fee f + Fill.quantity f * price f"
  using assms
  by (auto simp: buy_def Let_def split: if_splits)

theorem buy_value_conservation_witness:
  "buy (ExchangeMock_init 100 0.001 0.0005) ''BTCUSDT'' 250 20 None 0
     = (fst (buy (ExchangeMock_init 100 0.001 0.0005) ''BTCUSDT'' 250 20 None 0),
        Inr (Some \<lparr>timestamp = 0, Fill.symbol = ''BTCUSDT'', side = ''BUY'',
                   Fill.quantity = 3330 / 667, price = 20.01, fee = 0.1, total_cost = 100\<rparr>))
   \<and> cash (fst (buy (ExchangeMock_init 100 0.001 0.0005) ''BTCUSDT'' 250 20 None 0)) = 0
   \<and> (100::real) = 0.1 + 3330 / 667 * 20.01"
proof -
  let ?f = "\<lparr>timestamp = 0, Fill.symbol = ''BTCUSDT'', side = ''BUY'',
             Fill.quantity = 3330 / 667, price = 20.01, fee = 0.1, total_cost = 100\<rparr>"
  have h: "buy (ExchangeMock_init 100 0.001 0.0005) ''BTCUSDT'' 250 20 None 0
     = (fst (buy (ExchangeMock_init 100 0.001 0.0005) ''BTCUSDT'' 250 20 None 0), Inr (Some ?f))"
    by (simp add: buy_def Let_def timestamp_or_now_def)
  show ?thesis
    using h buy_value_conservation [OF h] by simp
qed

subsection \<open>Engine: cash stays non-negative\<close>

text \<open>
  Claim C2, as amended. With a non-negative initial capital, with \<open>fee_rate\<close>, \<open>slippage\<close>,
  \<open>hold_penalty_rate\<close> and \<open>risk_per_trade_pct\<close> in the interval from 0 to 1 and with
  positive close prices, the ledger's cash is non-negative after \<^verbatim>\<open>reset\<close> and after every
  sequence of \<^verbatim>\<open>step\<close> calls, whatever the actions and whether or not a call raises.
\<close>

theorem cash_never_negative:
  assumes "0 \<le> ic"
    and "0 \<le> fr" "fr \<le> 1" "0 \<le> sl" "sl \<le> 1" "0 \<le> hp" "hp \<le> 1" "0 \<le> rk" "rk \<le> 1"
    and "\<forall>r \<in> set d. 0 < col_close r"
  shows "0 \<le> cash (exchange (run_steps
           (fst (reset (TradingEnvironment_init d ic fr sl rk w sy hp))) actions))"
  using assms by (intro run_steps_cash_nonneg) simp_all

theorem cash_never_negative_witness:
  "map col_close example_data = [100, 100, 110, 110]
   \<and> 0 \<le> cash (exchange (run_steps
            (fst (reset (TradingEnvironment_init example_data 100 0.001 0.0005 0.5 1
                           ''BTCUSDT'' 0.05))) [BUY, SELL, HOLD]))"
proof -
  have pos: "\<forall>r \<in> set example_data. 0 < col_close r"
    by (simp add: example_data_def)
  show ?thesis
    using cash_never_negative [of 100 "0.001" "0.0005" "0.05" "0.5" example_data 1
        "''BTCUSDT''" "[BUY, SELL, HOLD]", OF _ _ _ _ _ _ _ _ _ pos]
    by (simp add: example_data_def)
qed

text \<open>
  Claim C2 as stated puts no bound on the initial capital. With an initial capital of -1
  and otherwise default parameters the cash is -1 after \<^verbatim>\<open>reset\<close>, and still -1 after
  a HOLD step (the penalty, -0.05, is not above 0.01, so nothing is deducted).
\<close>

theorem cash_negative_capital:
  "cash (exchange (run_steps
     (fst (reset (TradingEnvironment_init example_data (-1) 0.001 0.0005 0.1 1
                    ''BTCUSDT'' 0.05)))
     [HOLD])) < 0"
  by (simp add: step_eq apply_action_exchange Let_def split: sum.splits)

subsection \<open>Ledger: the round trip of Scenario A\<close>

lemma scenario_A_buy_eq:
  "scenario_A_buy =
    (\<lparr>ExchangeMock.initial_capital = 100, fee_rate = 1 / 1000, slippage = 1 / 2000, cash = 50,
      positions = [(''BTCUSDT'', \<lparr>Position.symbol = ''BTCUSDT'', quantity = 333 / 667,
            avg_entry_price = 2001 / 20, total_invested = 999 / 20\<rparr>)],
      trade_history = [\<lparr>timestamp = 0, Fill.symbol = ''BTCUSDT'', side = ''BUY'',
           Fill.quantity = 333 / 667, price = 2001 / 20, fee = 1 / 20, total_cost = 50\<rparr>],
      realized_pnl = 0\<rparr>,
     Inr (Some \<lparr>timestamp = 0, Fill.symbol = ''BTCUSDT'', side = ''BUY'',
           Fill.quantity = 333 / 667, price = 2001 / 20, fee = 1 / 20, total_cost = 50\<rparr>))"
  by (simp add: scenario_A_buy_def scenario_A_ledger_def buy_def Let_def timestamp_or_now_def
        ExchangeMock_init_def)

lemma scenario_A_sell_eq:
  "scenario_A_sell =
    (\<lparr>ExchangeMock.initial_capital = 100, fee_rate = 1 / 1000, slippage = 1 / 2000,
      cash = 13985014663 / 133400000,
      positions = [(''BTCUSDT'', \<lparr>Position.symbol = ''BTCUSDT'', quantity = 0,
            avg_entry_price = 0, total_invested = 0\<rparr>)],
      trade_history = [\<lparr>timestamp = 0, Fill.symbol = ''BTCUSDT'', side = ''BUY'',
           Fill.quantity = 333 / 667, price = 2001 / 20, fee = 1 / 20, total_cost = 50\<rparr>,
         \<lparr>timestamp = 1, Fill.symbol = ''BTCUSDT'', side = ''SELL'',
           Fill.quantity = 333 / 667, price = 21989 / 200, fee = 7322337 / 133400000,
           total_cost = 7315014663 / 133400000\<rparr>],
      realized_pnl = 651684663 / 133400000\<rparr>,
     Inr (Some \<lparr>timestamp = 1, Fill.symbol = ''BTCUSDT'', side = ''SELL'',
           Fill.quantity = 333 / 667, price = 21989 / 200, fee = 7322337 / 133400000,
           total_cost = 7315014663 / 133400000\<rparr>))"
  by (simp add: scenario_A_sell_def scenario_A_buy_eq sell_def Let_def timestamp_or_now_def
        is_open_def)

text \<open>
  Claim C7. With a capital of 100, a fee rate of 0.001 and a slippage of 0.0005, a BUY of 50
  at a market price of 100 fills at 100.05 with fee 0.05 and quantity 0.4992503748 (to ten
  decimals) and leaves a cash of 50. Selling the whole position at 110 fills at 109.945;
  the gross proceeds are 54.89008, the fee 0.054890, the net proceeds 54.83519, the
  realized P\&L 4.88519 and the cash 104.83519, each to within half a unit of its last
  printed digit, and the position is closed.
\<close>

theorem scenario_A_round_trip:
  "(\<exists>b. snd scenario_A_buy = Inr (Some b)
        \<and> side b = ''BUY'' \<and> price b = 100.05 \<and> fee b = 0.05
        \<and> \<bar>Fill.quantity b - 0.4992503748\<bar> \<le> 5 / 10 ^ 11)
   \<and> cash (fst scenario_A_buy) = 50
   \<and> (\<exists>s. snd scenario_A_sell = Inr (Some s)
        \<and> side s = ''SELL'' \<and> price s = 109.945
        \<and> Fill.quantity s = 333 / 667
        \<and> \<bar>Fill.quantity s * price s - 54.89008\<bar> \<le> 5 / 10 ^ 6
        \<and> \<bar>fee s - 0.054890\<bar> \<le> 5 / 10 ^ 7
        \<and> \<bar>total_cost s - 54.83519\<bar> \<le> 5 / 10 ^ 6)
   \<and> \<bar>realized_pnl (fst scenario_A_sell) - 4.88519\<bar> \<le> 5 / 10 ^ 6
   \<and> \<bar>cash (fst scenario_A_sell) - 104.83519\<bar> \<le> 5 / 10 ^ 6
   \<and> map_of (positions (fst scenario_A_sell)) ''BTCUSDT''
        = Some \<lparr>Position.symbol = ''BTCUSDT'', quantity = 0, avg_entry_price = 0,
                total_invested = 0\<rparr>"
  by (simp add: scenario_A_buy_eq scenario_A_sell_eq)

subsection \<open>The fields of the engine after one step\<close>

lemma actions_distinct [simp]:
  "HOLD \<noteq> BUY" "HOLD \<noteq> SELL" "BUY \<noteq> SELL" "BUY \<noteq> HOLD" "SELL \<noteq> HOLD" "SELL \<noteq> BUY"
  by (simp_all add: HOLD_def BUY_def SELL_def)

lemma sell_never_raises: "snd (sell self symb qty mp ts now) \<noteq> Inl e"
  by (simp add: sell_def Let_def split: option.splits)

lemma apply_action_snd:
  "snd (apply_action self action p ts pv) =
     (if action = HOLD then
        (if cash (exchange self) * hold_penalty_rate self > 0.01
         then Inr (None, cash (exchange self) * hold_penalty_rate self)
         else Inr (None, 0))
      else if action = BUY then
        (case snd (buy (exchange self) (TradingEnvironment.symbol self)
                     (pv * risk_per_trade_pct self) p (Some ts) ts) of
           Inl e \<Rightarrow> Inl e | Inr fill \<Rightarrow> Inr (fill, 0))
      else if action = SELL then
        (case snd (sell (exchange self) (TradingEnvironment.symbol self) None p (Some ts) ts) of
           Inl e \<Rightarrow> Inl e | Inr fill \<Rightarrow> Inr (fill, 0))
      else Inr (None, 0))"
  by (simp add: apply_action_def Let_def split: prod.splits sum.splits option.splits)

lemma apply_action_trade_pnls:
  "trade_pnls (fst (apply_action self action p ts pv)) =
     (if action = SELL then
        (case snd (sell (exchange self) (TradingEnvironment.symbol self) None p (Some ts) ts) of
           Inr (Some fill) \<Rightarrow>
             trade_pnls self @ [total_cost fill - Fill.quantity fill * price fill]
         | _ \<Rightarrow> trade_pnls self)
      else trade_pnls self)"
  by (simp add: apply_action_def Let_def split: prod.splits sum.splits option.splits)

lemma apply_action_total_hold_penalty:
  "total_hold_penalty (fst (apply_action self action p ts pv)) =
     (if action = HOLD \<and> cash (exchange self) * hold_penalty_rate self > 0.01
      then total_hold_penalty self + cash (exchange self) * hold_penalty_rate self
      else total_hold_penalty self)"
  by (simp add: apply_action_def Let_def split: prod.splits sum.splits option.splits)

lemma apply_action_untouched [simp]:
  "current_step (fst (apply_action self action p ts pv)) = current_step self"
  "done_flag (fst (apply_action self action p ts pv)) = done_flag self"
  "equity_curve (fst (apply_action self action p ts pv)) = equity_curve self"
  "step_log (fst (apply_action self action p ts pv)) = step_log self"
  "score_history (fst (apply_action self action p ts pv)) = score_history self"
  by (simp_all add: apply_action_def Let_def split: prod.splits sum.splits option.splits)

lemma finish_step_fields:
  "equity_curve (fst (finish_step self action r pv fill hp)) =
     equity_curve self
     @ [get_portfolio_value (exchange self) [TradingEnvironment.symbol self \<mapsto> col_close r]]"
  "trade_pnls (fst (finish_step self action r pv fill hp)) = trade_pnls self"
  "total_hold_penalty (fst (finish_step self action r pv fill hp)) = total_hold_penalty self"
  "current_step (fst (finish_step self action r pv fill hp)) =
     (if hp > 0 \<and> TradingEnvironment.initial_capital self = 0 then current_step self
      else current_step self + 1)"
  "done_flag (fst (finish_step self action r pv fill hp)) =
     (if hp > 0 \<and> TradingEnvironment.initial_capital self = 0 then done_flag self
      else int (length (data self)) - 1 \<le> current_step self + 1)"
  "length (step_log (fst (finish_step self action r pv fill hp))) =
     (if hp > 0 \<and> TradingEnvironment.initial_capital self = 0 then length (step_log self)
      else length (step_log self) + 1)"
  by (simp_all add: finish_step_def Let_def split: sum.splits)


subsection \<open>The example run, state by state\<close>

lemma example_env_fields [simp]:
  "data example_env = example_data"
  "TradingEnvironment.initial_capital example_env = 100"
  "hold_penalty_rate example_env = 0.05"
  "risk_per_trade_pct example_env = 0.5"
  "TradingEnvironment.symbol example_env = ''BTCUSDT''"
  "window_size example_env = 1"
  "exchange example_env = ExchangeMock_init 100 0.001 0.0005"
  "current_step example_env = 0"
  "done_flag example_env = False"
  "score example_env = 1000"
  "equity_curve example_env = []"
  "trade_pnls example_env = []"
  "step_log example_env = []"
  by (simp_all add: example_env_def)

lemma example_started_fields [simp]:
  "data example_started = example_data"
  "TradingEnvironment.initial_capital example_started = 100"
  "hold_penalty_rate example_started = 0.05"
  "risk_per_trade_pct example_started = 0.5"
  "TradingEnvironment.symbol example_started = ''BTCUSDT''"
  "exchange example_started = ExchangeMock_init 100 0.001 0.0005"
  "current_step example_started = 1"
  "done_flag example_started = False"
  "score example_started = 1000"
  "equity_curve example_started = []"
  "trade_pnls example_started = []"
  "step_log example_started = []"
  by (simp_all add: example_started_def exchange_reset_def ExchangeMock_init_def)

lemma example_bought_fields [simp]:
  "data example_bought = example_data"
  "TradingEnvironment.initial_capital example_bought = 100"
  "hold_penalty_rate example_bought = 0.05"
  "risk_per_trade_pct example_bought = 0.5"
  "TradingEnvironment.symbol example_bought = ''BTCUSDT''"
  "current_step example_bought = 2"
  "done_flag example_bought = False"
  "trade_pnls example_bought = []"
  "exchange example_bought =
     \<lparr>ExchangeMock.initial_capital = 100, fee_rate = 1 / 1000, slippage = 1 / 2000, cash = 50,
      positions = [(''BTCUSDT'', \<lparr>Position.symbol = ''BTCUSDT'', quantity = 333 / 667,
            avg_entry_price = 2001 / 20, total_invested = 999 / 20\<rparr>)],
      trade_history = [\<lparr>timestamp = 1, Fill.symbol = ''BTCUSDT'', side = ''BUY'',
           Fill.quantity = 333 / 667, price = 2001 / 20, fee = 1 / 20, total_cost = 50\<rparr>],
      realized_pnl = 0\<rparr>"
  by (simp_all add: example_bought_def step_eq Let_def apply_action_exchange apply_action_snd
        apply_action_trade_pnls finish_step_fields buy_def get_portfolio_value_def
        timestamp_or_now_def ExchangeMock_init_def split: sum.splits)

lemma example_sold_fields [simp]:
  "data example_sold = example_data"
  "current_step example_sold = 3"
  "done_flag example_sold = True"
  "trade_pnls example_sold = [- (7322337 / 133400000)]"
  "realized_pnl (exchange example_sold) = 651684663 / 133400000"
  "cash (exchange example_sold) = 13985014663 / 133400000"
  "length (trade_history (exchange example_sold)) = 2"
  by (simp_all add: example_sold_def step_eq Let_def apply_action_exchange apply_action_snd
        apply_action_trade_pnls finish_step_fields sell_def is_open_def
        timestamp_or_now_def split: sum.splits)

subsection \<open>Engine: the guard on a finished run\<close>

text \<open>
  Claim C5, as amended. A \<^verbatim>\<open>step\<close> on an engine whose run has ended (\<^verbatim>\<open>self.done\<close> is set,
  the TERMINAL state) raises \<^verbatim>\<open>RuntimeError\<close> and leaves the whole engine as it was: the
  value trajectory, the step log and the ledger with its cash, positions, trade history
  and realized P\&L.
\<close>

theorem step_when_done:
  "done_flag self \<Longrightarrow> step self action = (self, Inl RuntimeError)"
  by (simp add: step_def)

theorem step_when_done_witness:
  "done_flag example_sold \<and> step example_sold HOLD = (example_sold, Inl RuntimeError)"
  using step_when_done [of example_sold HOLD] by simp

text \<open>
  Claim C5 as stated also covers an engine that was never reset. The constructor leaves
  \<^verbatim>\<open>self.done\<close> unset and the cursor on row 0, and \<^verbatim>\<open>step\<close> has no other guard: on the
  freshly constructed example engine a HOLD returns normally, deducts the penalty of 5
  from the cash and extends the trajectory and the log.
\<close>

theorem step_without_reset:
  "snd (step example_env HOLD) \<noteq> Inl RuntimeError
   \<and> (\<exists>res. snd (step example_env HOLD) = Inr res)
   \<and> equity_curve example_env = [] \<and> equity_curve (fst (step example_env HOLD)) = [95]
   \<and> cash (exchange example_env) = 100 \<and> cash (exchange (fst (step example_env HOLD))) = 95
   \<and> length (step_log example_env) = 0
   \<and> length (step_log (fst (step example_env HOLD))) = 1"
  by (auto simp: step_eq Let_def apply_action_exchange apply_action_snd finish_step_fields
        get_portfolio_value_def finish_step_def get_observation_def iloc_def
        split: sum.splits)

subsection \<open>Engine: what a SELL step records\<close>

text \<open>
  The value that \<^verbatim>\<open>step\<close> appends to \<^verbatim>\<open>trade_pnls\<close> is
  \<^verbatim>\<open>fill.total_cost - fill.quantity * fill.price\<close>, which for a SELL fill is the net
  proceeds minus the gross proceeds: the fee, negated.
\<close>

lemma sell_fill_recorded_value:
  assumes "snd (sell self symb qty mp ts now) = Inr (Some f)"
  shows "total_cost f - Fill.quantity f * price f = - fee f"
  using assms
  by (auto simp: sell_def Let_def split: option.splits if_splits)

text \<open>
  Claim C3 says that the recorded value is the realized P\&L of the fill, net proceeds
  minus \<open>avg_entry_price * quantity\<close>. On the example run (BUY at 100, SELL at 110) the
  ledger adds 651684663/133400000, about 4.885, to its realized P\&L, and the engine
  records -7322337/133400000, about -0.0549, the negated fee.
\<close>

theorem sell_step_records_minus_fee:
  "trade_pnls example_bought = []
   \<and> trade_pnls example_sold = [- (7322337 / 133400000)]
   \<and> realized_pnl (exchange example_bought) = 0
   \<and> realized_pnl (exchange example_sold) = 651684663 / 133400000
   \<and> trade_pnls example_sold \<noteq> [realized_pnl (exchange example_sold)]"
  by simp

subsection \<open>Analytics: maximum drawdown\<close>

text \<open>
  The loop invariant: on non-negative values the running peak is non-negative and the
  running maximum lies between 0 and 1, so the division by the peak is never by zero (a
  value below the peak makes the peak positive) and the loop returns.
\<close>

lemma max_drawdown_loop_bounds:
  assumes "\<forall>v \<in> set xs. 0 \<le> v" "0 \<le> peak" "0 \<le> max_dd" "max_dd \<le> 1"
  shows "\<exists>p d. max_drawdown_loop xs i peak max_dd dd_start dur cur = Inr (p, d)
           \<and> 0 \<le> p \<and> p \<le> 100"
  using assms
proof (induction xs arbitrary: i peak max_dd dd_start dur cur)
  case Nil
  then show ?case by simp
next
  case (Cons v xs)
  have v0: "0 \<le> v" and rest: "\<forall>w \<in> set xs. 0 \<le> w" using Cons.prems(1) by simp_all
  show ?case
  proof (cases "peak \<le> v")
    case True
    then show ?thesis
      using Cons.IH [OF rest v0 Cons.prems(3,4)] by simp
  next
    case False
    then have pos: "0 < peak" using v0 by simp
    let ?dd = "(peak - v) / peak"
    have dd0: "0 \<le> ?dd" using False pos by simp
    have dd1: "?dd \<le> 1" using v0 pos by (simp add: divide_le_eq)
    show ?thesis
    proof (cases "max_dd < ?dd")
      case True
      then show ?thesis
        using False pos Cons.IH [OF rest Cons.prems(2) dd0 dd1] by (simp add: Let_def)
    next
      case nb: False
      then show ?thesis
        using False pos Cons.IH [OF rest Cons.prems(2,3,4)] by (simp add: Let_def)
    qed
  qed
qed

text \<open>
  Claim C8. On the trajectory 100, 120, 90, 110 the maximum drawdown is 25.0 percent with
  a duration of 1 step. On every trajectory of non-negative values the computation
  returns a percentage between 0 and 100, and on every trajectory of fewer than 2 points
  it returns (0, 0).
\<close>

theorem max_drawdown_scenario_and_bound:
  "max_drawdown [100, 120, 90, 110] = Inr (25, 1)
   \<and> ((\<forall>v \<in> set curve. 0 \<le> v) \<longrightarrow>
        (\<exists>p d. max_drawdown curve = Inr (p, d) \<and> 0 \<le> p \<and> p \<le> 100))
   \<and> (length curve < 2 \<longrightarrow> max_drawdown curve = Inr (0, 0))"
proof (intro conjI impI)
  show "max_drawdown [100, 120, 90, 110] = Inr (25, 1)"
    by (simp add: max_drawdown_def Let_def)
next
  assume nn: "\<forall>v \<in> set curve. 0 \<le> v"
  show "\<exists>p d. max_drawdown curve = Inr (p, d) \<and> 0 \<le> p \<and> p \<le> 100"
  proof (cases curve)
    case Nil
    then show ?thesis by (simp add: max_drawdown_def)
  next
    case (Cons v rest)
    note c1 = Cons
    show ?thesis
    proof (cases rest)
      case Nil
      then show ?thesis using c1 by (simp add: max_drawdown_def)
    next
      case (Cons w rest')
      have "0 \<le> v" using nn c1 by simp
      then have "\<exists>p d. max_drawdown_loop curve 0 v 0 0 0 0 = Inr (p, d) \<and> 0 \<le> p \<and> p \<le> 100"
        using nn by (intro max_drawdown_loop_bounds) simp_all
      then show ?thesis using c1 Cons by (simp add: max_drawdown_def)
    qed
  qed
next
  assume "length curve < 2"
  then show "max_drawdown curve = Inr (0, 0)"
    by (cases curve; cases "tl curve") (auto simp: max_drawdown_def)
qed

theorem max_drawdown_scenario_and_bound_witness:
  "max_drawdown [50, 40, 60, 15] = Inr (75, 1) \<and> max_drawdown [7] = Inr (0, 0)"
  using max_drawdown_scenario_and_bound [of "[50, 40, 60, 15]"]
        max_drawdown_scenario_and_bound [of "[7]"]
  by (simp add: max_drawdown_def Let_def)

subsection \<open>Analytics: trade statistics\<close>

text \<open>
  Claim C9. The statistics count the wins (P\&L above 0) and the losses (P\&L at most 0);
  the win rate is wins / total * 100; the profit factor is the gross profit over the
  absolute gross loss when that loss is positive, infinite when there are wins and the
  losses sum to zero, and 0 when there are no trades. The P\&Ls 5, 3, 2 give an infinite
  profit factor and a win rate of 100.
\<close>

theorem analyze_trades_statistics:
  "total_trades (analyze_trades pnls) = length pnls
   \<and> winning_trades (analyze_trades pnls) = length (filter (\<lambda>p. p > 0) pnls)
   \<and> losing_trades (analyze_trades pnls) = length (filter (\<lambda>p. p \<le> 0) pnls)
   \<and> (pnls \<noteq> [] \<longrightarrow>
        win_rate (analyze_trades pnls)
          = real (length (filter (\<lambda>p. p > 0) pnls)) / real (length pnls) * 100)
   \<and> (0 < \<bar>sum_list (filter (\<lambda>p. p \<le> 0) pnls)\<bar> \<longrightarrow>
        profit_factor (analyze_trades pnls)
          = Finite (sum_list (filter (\<lambda>p. p > 0) pnls)
                    / \<bar>sum_list (filter (\<lambda>p. p \<le> 0) pnls)\<bar>))
   \<and> (filter (\<lambda>p. p > 0) pnls \<noteq> [] \<and> sum_list (filter (\<lambda>p. p \<le> 0) pnls) = 0 \<longrightarrow>
        profit_factor (analyze_trades pnls) = Infinity)
   \<and> (pnls = [] \<longrightarrow>
        profit_factor (analyze_trades pnls) = Finite 0 \<and> win_rate (analyze_trades pnls) = 0)
   \<and> profit_factor (analyze_trades [5, 3, 2]) = Infinity
   \<and> win_rate (analyze_trades [5, 3, 2]) = 100"
  by (auto simp: analyze_trades_def Let_def)

theorem analyze_trades_statistics_witness:
  "win_rate (analyze_trades [6, -2, 4, -3]) = 50
   \<and> 0 < \<bar>sum_list (filter (\<lambda>p. p \<le> 0) [6, -2, 4, -3 :: real])\<bar>
   \<and> profit_factor (analyze_trades [6, -2, 4, -3]) = Finite 2
   \<and> sum_list (filter (\<lambda>p. p \<le> 0) [5, 3, 2 :: real]) = 0
   \<and> profit_factor (analyze_trades [5, 3, 2]) = Infinity
   \<and> profit_factor (analyze_trades []) = Finite 0"
  using analyze_trades_statistics [of "[6, -2, 4, -3]"] analyze_trades_statistics [of "[5, 3, 2]"]
        analyze_trades_statistics [of "[]"]
  by simp

subsection \<open>Ledger: positions stay in order\<close>

lemma positions_okI:
  assumes "distinct (map fst (positions self))"
    and "\<And>s p. map_of (positions self) s = Some p \<Longrightarrow> position_ok p"
  shows "positions_ok self"
  using assms by (auto simp: positions_ok_def)

lemma positions_okD:
  "positions_ok self \<Longrightarrow> map_of (positions self) s = Some p \<Longrightarrow> position_ok p"
  by (auto simp: positions_ok_def dest: map_of_SomeD)

lemma buy_quantity_nonneg:
  fixes a fr ep :: real
  assumes "0 \<le> a" "fr \<le> 1" "0 < ep"
  shows "0 \<le> (a - a * fr) / ep"
proof -
  have "0 \<le> a * (1 - fr)" using assms by simp
  then have "0 \<le> a - a * fr" by (simp add: algebra_simps)
  then show ?thesis using assms(3) by simp
qed

lemma buy_positions_ok:
  assumes ok: "positions_ok self" and fr: "fee_rate self \<le> 1" and sl: "- 1 < slippage self"
    and mp: "0 < mp"
  shows "positions_ok (fst (buy self symb usd mp ts now))"
proof (cases "snd (buy self symb usd mp ts now) = Inr None
              \<or> snd (buy self symb usd mp ts now) = Inl ZeroDivisionError")
  case True
  then have "fst (buy self symb usd mp ts now) = self"
    by (auto simp: buy_def Let_def split: if_splits)
  then show ?thesis using ok by simp
next
  case False
  define a where "a = min usd (cash self)"
  define ep where "ep = mp * (1 + slippage self)"
  define q where "q = (a - a * fee_rate self) / ep"
  define pos where "pos = (case map_of (positions self) symb of
      None \<Rightarrow> \<lparr>Position.symbol = symb, quantity = 0, avg_entry_price = 0, total_invested = 0\<rparr>
    | Some p \<Rightarrow> p)"
  have a: "1 / 100 \<le> a" and ep0: "ep \<noteq> 0"
    using False by (auto simp: buy_def Let_def a_def ep_def split: if_splits)
  have ep: "0 < ep" using mp sl by (simp add: ep_def)
  have q0: "0 \<le> q" unfolding q_def using a fr ep by (intro buy_quantity_nonneg) simp_all
  have pok: "position_ok pos"
    using ok by (auto simp: pos_def position_ok_def split: option.splits dest: positions_okD)
  define pos2 where "pos2 = (if Position.quantity pos + q > 0
        then pos\<lparr>avg_entry_price := (avg_entry_price pos * Position.quantity pos + ep * q)
                     / (Position.quantity pos + q)\<rparr> else pos)
      \<lparr>Position.quantity := Position.quantity pos + q,
       total_invested := total_invested (if Position.quantity pos + q > 0
        then pos\<lparr>avg_entry_price := (avg_entry_price pos * Position.quantity pos + ep * q)
                     / (Position.quantity pos + q)\<rparr> else pos) + (a - a * fee_rate self)\<rparr>"
  have upd: "positions (fst (buy self symb usd mp ts now))
               = AList.update symb pos2 (positions self)"
    using False ep0
    by (auto simp: buy_def Let_def a_def ep_def q_def pos_def pos2_def split: if_splits)
  have eff: "a - a * fee_rate self = 0" if "q = 0"
    using that ep0 by (simp add: q_def)
  have p2ok: "position_ok pos2"
  proof -
    have "0 \<le> Position.quantity pos" using pok by (simp add: position_ok_def)
    moreover have "avg_entry_price pos = 0 \<and> total_invested pos = 0"
      if "Position.quantity pos + q = 0"
      using that pok q0 \<open>0 \<le> Position.quantity pos\<close> by (simp add: position_ok_def)
    moreover have "q = 0" if "Position.quantity pos + q = 0"
      using that q0 \<open>0 \<le> Position.quantity pos\<close> by simp
    ultimately show ?thesis
      using q0 eff by (auto simp: position_ok_def pos2_def)
  qed
  show ?thesis
  proof (rule positions_okI)
    show "distinct (map fst (positions (fst (buy self symb usd mp ts now))))"
      using ok by (simp add: upd positions_ok_def distinct_update)
  next
    fix s p
    assume "map_of (positions (fst (buy self symb usd mp ts now))) s = Some p"
    then show "position_ok p"
      using p2ok ok by (auto simp: upd update_conv' split: if_splits dest: positions_okD)
  qed
qed

lemma sell_no_fill:
  assumes "snd (sell self symb qty mp ts now) = Inr None"
  shows "fst (sell self symb qty mp ts now) = self"
  using assms by (auto simp: sell_def Let_def split: option.splits if_splits)

lemma sell_fill_positions:
  assumes "snd (sell self symb qty mp ts now) = Inr (Some f)"
  shows "\<exists>pos. map_of (positions self) symb = Some pos
           \<and> 1 / 10 ^ 10 \<le> sold_quantity pos qty
           \<and> sold_quantity pos qty \<le> Position.quantity pos
           \<and> positions (fst (sell self symb qty mp ts now))
               = AList.update symb
                   (if Position.quantity pos - sold_quantity pos qty < 1 / 10 ^ 10
                    then pos\<lparr>Position.quantity := 0, avg_entry_price := 0,
                              total_invested := 0\<rparr>
                    else pos\<lparr>Position.quantity :=
                                Position.quantity pos - sold_quantity pos qty\<rparr>)
                   (positions self)"
  using assms
  by (auto simp: sell_def Let_def sold_quantity_def split: option.splits if_splits)

lemma sell_cases:
  "snd (sell self symb qty mp ts now) = Inr None
   \<or> (\<exists>f. snd (sell self symb qty mp ts now) = Inr (Some f))"
  by (simp add: sell_def Let_def split: option.splits)

lemma sell_positions_ok:
  assumes ok: "positions_ok self"
  shows "positions_ok (fst (sell self symb qty mp ts now))"
  using sell_cases [of self symb qty mp ts now]
proof (elim disjE exE)
  assume "snd (sell self symb qty mp ts now) = Inr None"
  then show ?thesis using ok by (simp add: sell_no_fill)
next
  fix f
  assume "snd (sell self symb qty mp ts now) = Inr (Some f)"
  then obtain pos where q: "1 / 10 ^ 10 \<le> sold_quantity pos qty"
      "sold_quantity pos qty \<le> Position.quantity pos"
    and upd: "positions (fst (sell self symb qty mp ts now))
                = AList.update symb
                   (if Position.quantity pos - sold_quantity pos qty < 1 / 10 ^ 10
                    then pos\<lparr>Position.quantity := 0, avg_entry_price := 0,
                              total_invested := 0\<rparr>
                    else pos\<lparr>Position.quantity :=
                                Position.quantity pos - sold_quantity pos qty\<rparr>)
                   (positions self)"
    using sell_fill_positions by blast
  let ?new = "if Position.quantity pos - sold_quantity pos qty < 1 / 10 ^ 10
              then pos\<lparr>Position.quantity := 0, avg_entry_price := 0, total_invested := 0\<rparr>
              else pos\<lparr>Position.quantity := Position.quantity pos - sold_quantity pos qty\<rparr>"
  have newok: "position_ok ?new" using q by (auto simp: position_ok_def)
  show ?thesis
  proof (rule positions_okI)
    show "distinct (map fst (positions (fst (sell self symb qty mp ts now))))"
      using ok by (simp add: upd positions_ok_def distinct_update)
  next
    fix s p
    assume "map_of (positions (fst (sell self symb qty mp ts now))) s = Some p"
    then have "map_of (AList.update symb ?new (positions self)) s = Some p"
      by (simp only: upd)
    then have "p = ?new \<or> map_of (positions self) s = Some p"
      by (auto simp: update_conv' split: if_splits)
    then show "position_ok p"
      using newok ok by (auto dest: positions_okD)
  qed
qed

lemma place_params [simp]:
  "fee_rate (place self ord now) = fee_rate self"
  "slippage (place self ord now) = slippage self"
  by (cases ord; simp)+

lemma place_all_positions_ok:
  assumes "positions_ok self" "fee_rate self \<le> 1" "- 1 < slippage self"
    "\<forall>ord \<in> set ords. 0 < order_price ord"
  shows "positions_ok (place_all self ords now)"
  using assms
proof (induction ords arbitrary: self)
  case Nil
  then show ?case by simp
next
  case (Cons ord ords)
  have "positions_ok (place self ord now)"
    using Cons.prems by (cases ord) (simp_all add: buy_positions_ok sell_positions_ok)
  then show ?case using Cons.prems by (simp add: Cons.IH)
qed

lemma sell_resets_dust:
  assumes "sell self symb qty mp ts now = (self', Inr (Some f))"
  shows "\<exists>p. map_of (positions self') symb = Some p
           \<and> (Position.quantity p < 1 / 10 ^ 10 \<longrightarrow>
                Position.quantity p = 0 \<and> avg_entry_price p = 0 \<and> total_invested p = 0)"
proof -
  have "snd (sell self symb qty mp ts now) = Inr (Some f)"
    and s': "self' = fst (sell self symb qty mp ts now)"
    using assms by simp_all
  then obtain pos where
    "positions self'
       = AList.update symb
           (if Position.quantity pos - sold_quantity pos qty < 1 / 10 ^ 10
            then pos\<lparr>Position.quantity := 0, avg_entry_price := 0, total_invested := 0\<rparr>
            else pos\<lparr>Position.quantity := Position.quantity pos - sold_quantity pos qty\<rparr>)
           (positions self)"
    using sell_fill_positions by blast
  then show ?thesis by (simp add: update_conv')
qed

text \<open>
  Claim C6, as amended. On a ledger with \<open>fee_rate\<close> at most 1 and \<open>slippage\<close> above -1, in
  every state reached from the initial one by buy and sell orders at positive market
  prices, every position has a quantity of at least 0, and a position whose quantity is 0
  has an average entry price and an invested amount of 0. A sell that fills leaves the
  sold position either with a quantity of at least the dust threshold 1e-10 or fully
  reset: quantity, average entry price and invested amount all 0.
\<close>

theorem positions_nonneg_and_reset:
  assumes "fr \<le> 1" "- 1 < sl" "\<forall>ord \<in> set ords. 0 < order_price ord"
  shows "(\<forall>(symb, p) \<in> set (positions (place_all (ExchangeMock_init ic fr sl) ords now)).
            0 \<le> Position.quantity p
            \<and> (Position.quantity p = 0 \<longrightarrow> avg_entry_price p = 0 \<and> total_invested p = 0))
       \<and> (\<forall>symb qty mp ts f self'.
            sell (place_all (ExchangeMock_init ic fr sl) ords now) symb qty mp ts now
              = (self', Inr (Some f)) \<longrightarrow>
            (\<exists>p. map_of (positions self') symb = Some p
               \<and> (Position.quantity p < 1 / 10 ^ 10 \<longrightarrow>
                    Position.quantity p = 0 \<and> avg_entry_price p = 0
                    \<and> total_invested p = 0)))"
proof -
  have "positions_ok (ExchangeMock_init ic fr sl)" by (simp add: positions_ok_def)
  then have "positions_ok (place_all (ExchangeMock_init ic fr sl) ords now)"
    using assms by (intro place_all_positions_ok) simp_all
  then show ?thesis
    using sell_resets_dust by (auto simp: positions_ok_def position_ok_def)
qed

theorem positions_nonneg_and_reset_witness:
  "(0.001::real) \<le> 1 \<and> - 1 < (0.0005::real)
   \<and> map order_price [Buy ''BTCUSDT'' 50 100 None, Sell ''BTCUSDT'' None 110 None]
       = [100, 110]
   \<and> positions (place_all (ExchangeMock_init 100 0.001 0.0005)
                  [Buy ''BTCUSDT'' 50 100 None, Sell ''BTCUSDT'' None 110 None] 0)
       = [(''BTCUSDT'', \<lparr>Position.symbol = ''BTCUSDT'', quantity = 0, avg_entry_price = 0,
                          total_invested = 0\<rparr>)]"
proof -
  have pr: "\<forall>ord \<in> set [Buy ''BTCUSDT'' 50 100 None, Sell ''BTCUSDT'' None 110 None].
              0 < order_price ord"
    by simp
  have ev: "positions (place_all (ExchangeMock_init 100 0.001 0.0005)
                  [Buy ''BTCUSDT'' 50 100 None, Sell ''BTCUSDT'' None 110 None] 0)
       = [(''BTCUSDT'', \<lparr>Position.symbol = ''BTCUSDT'', quantity = 0, avg_entry_price = 0,
                          total_invested = 0\<rparr>)]"
    by (simp add: buy_def sell_def Let_def is_open_def timestamp_or_now_def ExchangeMock_init_def)
  show ?thesis
    using positions_nonneg_and_reset [of "0.001" "0.0005"
        "[Buy ''BTCUSDT'' 50 100 None, Sell ''BTCUSDT'' None 110 None]" 100 0, OF _ _ pr] ev
    by simp
qed

text \<open>
  Claim C6 as stated, "a quantity below the dust threshold implies an average entry price
  and an invested amount of 0", fails after a BUY: only \<^verbatim>\<open>sell\<close> resets a position, and
  \<^verbatim>\<open>buy\<close> checks the dollar amount against 0.01, not the quantity against the dust
  threshold. With the default fee and slippage a buy of 0.01 at a market price of 10^9
  opens a position of about 1e-11 units with an average entry price of 1000500000. And
  the claim bounds no parameter: with a fee rate of 2 a buy of 50 at 100 leaves a position
  of negative quantity.
\<close>

theorem dust_position_after_buy:
  "positions (place_all (ExchangeMock_init 100 0.001 0.0005)
                [Buy ''BTCUSDT'' 0.01 1000000000 None] 0)
     = [(''BTCUSDT'', \<lparr>Position.symbol = ''BTCUSDT'', quantity = 333 / 33350000000000,
                        avg_entry_price = 1000500000, total_invested = 999 / 100000\<rparr>)]
   \<and> (333 / 33350000000000 :: real) < 1 / 10 ^ 10
   \<and> positions (place_all (ExchangeMock_init 100 2 0.0005) [Buy ''BTCUSDT'' 50 100 None] 0)
     = [(''BTCUSDT'', \<lparr>Position.symbol = ''BTCUSDT'', quantity = - (1000 / 2001),
                        avg_entry_price = 0, total_invested = - 50\<rparr>)]"
  by (simp add: buy_def Let_def timestamp_or_now_def ExchangeMock_init_def)

subsection \<open>Engine: the score\<close>

text \<open>
  The score leaves the interval from 0 to 1000 only if \<^verbatim>\<open>step\<close> raises between the reward
  term and the clamp, which needs a hold penalty on an engine whose initial capital is 0.
  Such an engine never has cash or a position, so the penalty is never applied.
\<close>

lemma clamp_score_bounds [simp]: "0 \<le> clamp_score x" "clamp_score x \<le> 1000"
  by (simp_all add: clamp_score_def)








lemma finish_step_result:
  assumes "finish_step self action r pv fill hp = (self', Inr (obs, reward, terminated, truncated, info'))"
  shows "info_hold_penalty info' = hp
       \<and> score self' =
           clamp_score (if hp > 0
                        then score_after_reward (score self) reward
                             - hp / TradingEnvironment.initial_capital self * 50
                        else score_after_reward (score self) reward)"
  using assms
  by (auto simp: finish_step_def Let_def split: if_splits sum.splits)

lemma step_result:
  assumes "step self action = (self', Inr (obs, reward, terminated, truncated, info'))"
  shows "score self' =
           clamp_score (if info_hold_penalty info' > 0
                        then score_after_reward (score self) reward
                             - info_hold_penalty info' / TradingEnvironment.initial_capital self * 50
                        else score_after_reward (score self) reward)"
proof -
  from assms obtain r a fh where
    a: "a = apply_action self action (col_close r) (col_timestamp r)
              (get_portfolio_value (exchange self)
                 [TradingEnvironment.symbol self \<mapsto> col_close r])"
    and fin: "finish_step (fst a) action r
                (get_portfolio_value (exchange self)
                   [TradingEnvironment.symbol self \<mapsto> col_close r])
                (fst fh) (snd fh) = (self', Inr (obs, reward, terminated, truncated, info'))"
    by (auto simp: step_eq Let_def split: if_splits sum.splits)
  show ?thesis
    using finish_step_result [OF fin] by (simp add: a)
qed




end
